theory Spec2Isabelle
  imports Main
begin

section \<open>Token lifecycle and request authentication of Rah-e-Ayandeh\<close>

text \<open>
  A shallow embedding of \<^verbatim>\<open>utils/auth.js\<close> (token service and authentication gate), of
  the error classes and the status computation of \<^verbatim>\<open>utils/errorHandler.js\<close>, of the
  profile projection of \<^verbatim>\<open>models/User.js\<close> and of the \<^verbatim>\<open>GET /profile\<close> handler of
  \<^verbatim>\<open>routes/auth.js\<close>.

  Conventions of the model:
  \<^item> an exception is a value: every function that can throw or reject returns
    \<open>error + 'a\<close>, with \<open>Inl\<close> the error thrown;
  \<^item> the clock is a parameter \<open>now\<close>, in whole seconds, the unit in which the
    \<^verbatim>\<open>jsonwebtoken\<close> library stamps and checks tokens;
  \<^item> the Redis connection is a state that is passed in and returned, and the result of an
    asynchronous function is how its promise ends: resolved, rejected, or never settled;
  \<^item> calls of the logger are left out: they change neither state nor result;
  \<^item> of the two messages an error carries, the localized one is left out and the English
    one (\<^verbatim>\<open>errorEn\<close>) is kept.
\<close>

subsection \<open>Errors (\<^verbatim>\<open>utils/errorHandler.js\<close>)\<close>

datatype error_class =
    BadRequestError
  | UnauthorizedError
  | ForbiddenError
  | NotFoundError
  | ValidationError
  | RateLimitError
  | InternalServerError

text \<open>The second argument each subclass passes to the constructor of \<^verbatim>\<open>AppError\<close>.\<close>

fun statusCode :: "error_class \<Rightarrow> nat" where
  "statusCode BadRequestError = 400"
| "statusCode UnauthorizedError = 401"
| "statusCode ForbiddenError = 403"
| "statusCode NotFoundError = 404"
| "statusCode ValidationError = 422"
| "statusCode RateLimitError = 429"
| "statusCode InternalServerError = 500"

datatype jwt_error = JsonWebTokenError | TokenExpiredError

text \<open>
  What can be thrown in this subsystem: an \<^verbatim>\<open>AppError\<close> of some subclass with its English
  message, an error of the \<^verbatim>\<open>jsonwebtoken\<close> library (identified by its \<^verbatim>\<open>name\<close>), an
  error of the Redis client, or a \<^verbatim>\<open>TypeError\<close> of the language; the last two have a
  message and no \<^verbatim>\<open>statusCode\<close>.
\<close>

datatype error =
    AppError error_class string
  | JwtError jwt_error
  | RedisError string
  | TypeError string

text \<open>
  The status \<^verbatim>\<open>errorHandlerMiddleware\<close> answers with:
  \<^verbatim>\<open>err.statusCode || 500\<close>, overridden by 401 for the two library error names.
\<close>

fun responseStatus :: "error \<Rightarrow> nat" where
  "responseStatus (AppError c m) = (if statusCode c = 0 then 500 else statusCode c)"
| "responseStatus (JwtError e) = 401"
| "responseStatus (RedisError m) = 500"
| "responseStatus (TypeError m) = 500"

subsection \<open>Token strings and the \<^verbatim>\<open>jsonwebtoken\<close> library\<close>

text \<open>
  The claims of a decoded token. An access token carries \<^verbatim>\<open>id\<close>, \<^verbatim>\<open>username\<close>,
  \<^verbatim>\<open>email\<close> and \<^verbatim>\<open>role\<close>, a refresh token \<^verbatim>\<open>id\<close> and \<^verbatim>\<open>type\<close>; the library adds
  \<^verbatim>\<open>iat\<close> and \<^verbatim>\<open>exp\<close>. A field the payload does not have is \<open>None\<close>.
\<close>

record claims =
  cl_id :: string
  cl_username :: "string option"
  cl_email :: "string option"
  cl_role :: "string option"
  cl_type :: "string option"
  cl_iat :: nat
  cl_exp :: nat

text \<open>
  The library is not part of the repository. It is modelled symbolically, with perfect
  signatures: the compact serialisation of claims \<open>c\<close> signed with secret \<open>k\<close> is one atomic
  symbol \<open>Signed c k\<close> of the string alphabet, different from every character. Two token
  strings are then equal exactly when claims and signing secret are, which is what
  comparing serialisations byte for byte decides when signatures do not collide. A
  serialised token contains no space.
\<close>

datatype symbol = Ch char | Signed claims string

type_synonym jstring = "symbol list"

text \<open>
  \<^verbatim>\<open>jwt.sign(payload, secret, { expiresIn })\<close>: stamps \<^verbatim>\<open>iat = now\<close> and
  \<^verbatim>\<open>exp = now + expiresIn\<close>. The payload is given as claims whose stamps are overwritten.
\<close>

definition jwt_sign :: "claims \<Rightarrow> string \<Rightarrow> nat \<Rightarrow> nat \<Rightarrow> jstring" where
  "jwt_sign payload secret expiresIn now =
     [Signed (payload\<lparr>cl_iat := now, cl_exp := now + expiresIn\<rparr>) secret]"

text \<open>
  \<^verbatim>\<open>jwt.verify(token, secret)\<close>: a string that is not a serialised token, or one signed
  with another secret, raises \<^verbatim>\<open>JsonWebTokenError\<close>; then a token whose \<^verbatim>\<open>exp\<close> is not
  after the clock raises \<^verbatim>\<open>TokenExpiredError\<close>; otherwise the claims are returned.
\<close>

fun jwt_verify :: "jstring \<Rightarrow> string \<Rightarrow> nat \<Rightarrow> jwt_error + claims" where
  "jwt_verify [Signed c k] secret now =
     (if k \<noteq> secret then Inl JsonWebTokenError
      else if cl_exp c \<le> now then Inl TokenExpiredError
      else Inr c)"
| "jwt_verify token secret now = Inl JsonWebTokenError"

subsection \<open>Configuration (\<^verbatim>\<open>process.env\<close>)\<close>

text \<open>
  The four variables the token service reads. A lifetime is held in seconds, as the
  library reads the configured span (\<^verbatim>\<open>'15m'\<close> is 900, \<^verbatim>\<open>'7d'\<close> is 604800).
\<close>

record env =
  JWT_SECRET :: "string option"
  JWT_EXPIRES_IN :: "nat option"
  JWT_REFRESH_SECRET :: "string option"
  JWT_REFRESH_EXPIRES_IN :: "nat option"

text \<open>\<^verbatim>\<open>process.env.X || fallback\<close>: an unset variable and the empty string are falsy.\<close>

definition or_string :: "string option \<Rightarrow> string \<Rightarrow> string" where
  "or_string v fallback = (case v of None \<Rightarrow> fallback | Some s \<Rightarrow> if s = [] then fallback else s)"

definition or_span :: "nat option \<Rightarrow> nat \<Rightarrow> nat" where
  "or_span v fallback = (case v of None \<Rightarrow> fallback | Some n \<Rightarrow> n)"

definition accessSecret :: "env \<Rightarrow> string" where
  "accessSecret e = or_string (JWT_SECRET e) ''jwt_fallback_secret''"

definition accessExpiresIn :: "env \<Rightarrow> nat" where
  "accessExpiresIn e = or_span (JWT_EXPIRES_IN e) 900"

definition refreshSecret :: "env \<Rightarrow> string" where
  "refreshSecret e = or_string (JWT_REFRESH_SECRET e) ''jwt_refresh_fallback_secret''"

definition refreshExpiresIn :: "env \<Rightarrow> nat" where
  "refreshExpiresIn e = or_span (JWT_REFRESH_EXPIRES_IN e) 604800"

subsection \<open>The Redis connection\<close>

text \<open>
  What the token service sees of Redis: the entries, each with the instant at which it
  expires when it has one, and whether the client reaches the server. With
  \<open>failure = Some m\<close> the client rejects every command with an error of message \<open>m\<close> and
  the entries stay as they are.
\<close>

record redis =
  entries :: "string \<Rightarrow> (jstring \<times> nat option) option"
  failure :: "string option"

text \<open>
  The commands of the client. \<^verbatim>\<open>package.json\<close> asks for \<^verbatim>\<open>redis ^4.7.0\<close> and the
  client is created with \<^verbatim>\<open>legacyMode: false\<close>: each command returns a promise of its
  own, here the value that promise settles with (\<open>Inl\<close> when it rejects), and takes no
  callback. \<^verbatim>\<open>SET\<close> sets an expiry only when its third argument is an object with the
  property \<^verbatim>\<open>EX\<close>, given here as \<open>Some seconds\<close>.
\<close>

definition client_get :: "redis \<Rightarrow> nat \<Rightarrow> string \<Rightarrow> error + jstring option" where
  "client_get st now key =
     (case failure st of
        Some m \<Rightarrow> Inl (RedisError m)
      | None \<Rightarrow>
          (case entries st key of
             None \<Rightarrow> Inr None
           | Some (v, None) \<Rightarrow> Inr (Some v)
           | Some (v, Some deadline) \<Rightarrow> if now < deadline then Inr (Some v) else Inr None))"

definition client_set :: "redis \<Rightarrow> nat \<Rightarrow> string \<Rightarrow> jstring \<Rightarrow> nat option \<Rightarrow> error + redis" where
  "client_set st now key v ex =
     (case failure st of
        Some m \<Rightarrow> Inl (RedisError m)
      | None \<Rightarrow>
          Inr (st\<lparr>entries := (entries st)(key \<mapsto> (v, map_option (\<lambda>seconds. now + seconds) ex))\<rparr>))"

definition client_del :: "redis \<Rightarrow> string \<Rightarrow> error + redis" where
  "client_del st key =
     (case failure st of
        Some m \<Rightarrow> Inl (RedisError m)
      | None \<Rightarrow> Inr (st\<lparr>entries := (entries st)(key := None)\<rparr>))"

text \<open>
  How an awaited call ends: it resolves with a value, it rejects with an error, or it
  never settles. In the last case \<open>Unsettled (Some err)\<close> says that a promise nobody awaits
  has rejected with \<open>err\<close> meanwhile: an unhandled rejection, which no \<^verbatim>\<open>catch\<close> of the
  caller sees.
\<close>

datatype 'a promise = Resolved 'a | Rejected error | Unsettled "error option"

text \<open>
  \<^verbatim>\<open>const redisGet = promisify(redisClient.get).bind(redisClient)\<close>, and the same for
  \<^verbatim>\<open>set\<close> and \<^verbatim>\<open>del\<close>. \<^verbatim>\<open>util.promisify\<close> appends a callback to the arguments and
  settles when the callback is called. The command is sent, the callback is never called,
  and the promise the command returns is dropped: given what that promise settles with,
  this is what the caller of the wrapper gets.
\<close>

definition promisify :: "error + 'a \<Rightarrow> 'b promise" where
  "promisify sent = (case sent of Inl err \<Rightarrow> Unsettled (Some err) | Inr v \<Rightarrow> Unsettled None)"

definition redisGet :: "redis \<Rightarrow> nat \<Rightarrow> string \<Rightarrow> jstring option promise" where
  "redisGet st now key = promisify (client_get st now key)"

text \<open>
  \<^verbatim>\<open>redisSet(tokenKey, refreshToken, 'EX', 60 * 60 * 24 * 7)\<close>: the third argument of the
  command is the string \<^verbatim>\<open>'EX'\<close>, which has no property \<^verbatim>\<open>EX\<close>, and the number after
  it is not looked at; the entry is written without expiry.
\<close>

definition redisSet :: "redis \<Rightarrow> nat \<Rightarrow> string \<Rightarrow> jstring \<Rightarrow> string \<Rightarrow> nat \<Rightarrow> unit promise \<times> redis" where
  "redisSet st now key v flag seconds =
     (let sent = client_set st now key v None
      in (promisify sent, case sent of Inl err \<Rightarrow> st | Inr st' \<Rightarrow> st'))"

definition redisDel :: "redis \<Rightarrow> string \<Rightarrow> unit promise \<times> redis" where
  "redisDel st key =
     (let sent = client_del st key
      in (promisify sent, case sent of Inl err \<Rightarrow> st | Inr st' \<Rightarrow> st'))"

text \<open>\<^verbatim>\<open>const v = await p; ...\<close>: the rest runs with the value once \<open>p\<close> resolves.\<close>

definition await :: "'a promise \<Rightarrow> ('a \<Rightarrow> 'b promise) \<Rightarrow> 'b promise" where
  "await p rest =
     (case p of
        Resolved v \<Rightarrow> rest v
      | Rejected err \<Rightarrow> Rejected err
      | Unsettled u \<Rightarrow> Unsettled u)"

subsection \<open>Users (\<^verbatim>\<open>models/User.js\<close>)\<close>

record favorites_doc =
  universities :: "string list"
  jobs :: "string list"

record application_doc =
  item :: string
  itemType :: string
  status :: string
  app_notes :: "string option"
  appliedAt :: nat
  app_updatedAt :: "nat option"

record User =
  user_id :: string
  username :: string
  email :: string
  password :: string
  firstName :: "string option"
  lastName :: "string option"
  role :: string
  favorites :: favorites_doc
  applications :: "application_doc list"
  createdAt :: nat
  updatedAt :: "nat option"
  lastLogin :: "nat option"

record profile =
  pr_id :: string
  pr_username :: string
  pr_email :: string
  pr_firstName :: "string option"
  pr_lastName :: "string option"
  pr_role :: string
  pr_favorites :: favorites_doc
  pr_applications :: "application_doc list"
  pr_createdAt :: nat

definition getProfile :: "User \<Rightarrow> profile" where
  "getProfile this =
     \<lparr> pr_id = user_id this,
       pr_username = username this,
       pr_email = email this,
       pr_firstName = firstName this,
       pr_lastName = lastName this,
       pr_role = role this,
       pr_favorites = favorites this,
       pr_applications = applications this,
       pr_createdAt = createdAt this \<rparr>"

subsection \<open>The token service (\<^verbatim>\<open>utils/auth.js\<close>)\<close>

definition generateAccessToken :: "env \<Rightarrow> nat \<Rightarrow> User \<Rightarrow> jstring" where
  "generateAccessToken e now user =
     (let payload = \<lparr> cl_id = user_id user,
                      cl_username = Some (username user),
                      cl_email = Some (email user),
                      cl_role = Some (role user),
                      cl_type = None,
                      cl_iat = 0, cl_exp = 0 \<rparr>
      in jwt_sign payload (accessSecret e) (accessExpiresIn e) now)"

definition tokenKey :: "string \<Rightarrow> string" where
  "tokenKey userId = ''refresh_token:'' @ userId"

text \<open>
  The write to Redis is awaited outside any \<^verbatim>\<open>try\<close>. The result is the promise of the
  call and the state Redis is left in.
\<close>

definition generateRefreshToken :: "env \<Rightarrow> redis \<Rightarrow> nat \<Rightarrow> User \<Rightarrow> jstring promise \<times> redis" where
  "generateRefreshToken e st now user =
     (let payload = \<lparr> cl_id = user_id user,
                      cl_username = None,
                      cl_email = None,
                      cl_role = None,
                      cl_type = Some ''refresh'',
                      cl_iat = 0, cl_exp = 0 \<rparr>;
          refreshToken = jwt_sign payload (refreshSecret e) (refreshExpiresIn e) now;
          (written, st') = redisSet st now (tokenKey (user_id user)) refreshToken
                             ''EX'' (60 * 60 * 24 * 7)
      in (await written (\<lambda>_. Resolved refreshToken), st'))"

definition verifyAccessToken :: "env \<Rightarrow> nat \<Rightarrow> jstring \<Rightarrow> error + claims" where
  "verifyAccessToken e now token =
     (case jwt_verify token (accessSecret e) now of
        Inr decoded \<Rightarrow> Inr decoded
      | Inl err \<Rightarrow> Inl (AppError UnauthorizedError ''Invalid token. Please login again''))"

text \<open>
  The body of the \<^verbatim>\<open>try\<close> block of \<^verbatim>\<open>verifyRefreshToken\<close>. \<^verbatim>\<open>jwt.verify\<close> throws
  synchronously; the read of Redis is awaited. The test
  \<^verbatim>\<open>!storedToken || storedToken !== token\<close> takes a missing entry (\<^verbatim>\<open>null\<close>) and the
  empty string as falsy.
\<close>

definition verifyRefreshToken_try :: "env \<Rightarrow> redis \<Rightarrow> nat \<Rightarrow> jstring \<Rightarrow> claims promise" where
  "verifyRefreshToken_try e st now token =
     (case jwt_verify token (refreshSecret e) now of
        Inl err \<Rightarrow> Rejected (JwtError err)
      | Inr decoded \<Rightarrow>
          await (redisGet st now (tokenKey (cl_id decoded)))
            (\<lambda>storedToken.
               if storedToken = None \<or> storedToken = Some [] \<or> storedToken \<noteq> Some token
               then Rejected (AppError UnauthorizedError ''Invalid token. Please login again'')
               else Resolved decoded))"

text \<open>
  The \<^verbatim>\<open>catch\<close> block replaces whatever was thrown inside the \<^verbatim>\<open>try\<close>; it does not run
  while the awaited read is unsettled.
\<close>

definition verifyRefreshToken :: "env \<Rightarrow> redis \<Rightarrow> nat \<Rightarrow> jstring \<Rightarrow> claims promise" where
  "verifyRefreshToken e st now token =
     (case verifyRefreshToken_try e st now token of
        Resolved decoded \<Rightarrow> Resolved decoded
      | Rejected err \<Rightarrow> Rejected (AppError UnauthorizedError ''Token expired. Please login again'')
      | Unsettled u \<Rightarrow> Unsettled u)"

definition invalidateRefreshToken :: "redis \<Rightarrow> string \<Rightarrow> unit promise \<times> redis" where
  "invalidateRefreshToken st userId =
     (let (deleted, st') = redisDel st (tokenKey userId)
      in (await deleted (\<lambda>_. Resolved ()), st'))"

subsection \<open>The authentication gate (\<^verbatim>\<open>utils/auth.js\<close>)\<close>

record request =
  authorization :: "jstring option"
  user :: "claims option"

text \<open>
  How a middleware ends: it calls \<^verbatim>\<open>next()\<close> with the request as it left it, calls
  \<^verbatim>\<open>next(error)\<close>, or throws.
\<close>

datatype outcome = Next request | NextError error | Throws error

text \<open>\<^verbatim>\<open>String.prototype.split(' ')\<close>: the pieces between single space characters.\<close>

fun split_space :: "jstring \<Rightarrow> jstring list" where
  "split_space [] = [[]]"
| "split_space (c # cs) =
     (if c = Ch CHR '' '' then [] # split_space cs
      else (case split_space cs of
              [] \<Rightarrow> [[c]]
            | p # ps \<Rightarrow> (c # p) # ps))"

text \<open>Indexing an array: \<^verbatim>\<open>undefined\<close> beyond its end.\<close>

definition index :: "'a list \<Rightarrow> nat \<Rightarrow> 'a option" where
  "index xs i = (if i < length xs then Some (xs ! i) else None)"

text \<open>
  \<^verbatim>\<open>authHeader && authHeader.split(' ')[1]\<close>: an absent header gives \<^verbatim>\<open>undefined\<close>, an
  empty one gives itself.
\<close>

definition headerToken :: "jstring option \<Rightarrow> jstring option" where
  "headerToken authHeader =
     (case authHeader of
        None \<Rightarrow> None
      | Some h \<Rightarrow> if h = [] then Some [] else index (split_space h) 1)"

definition authenticateToken :: "env \<Rightarrow> nat \<Rightarrow> request \<Rightarrow> outcome" where
  "authenticateToken e now req =
     (case headerToken (authorization req) of
        None \<Rightarrow> Throws (AppError UnauthorizedError ''Access token is required'')
      | Some token \<Rightarrow>
          if token = [] then Throws (AppError UnauthorizedError ''Access token is required'')
          else (case verifyAccessToken e now token of
                  Inr decoded \<Rightarrow> Next (req\<lparr>user := Some decoded\<rparr>)
                | Inl err \<Rightarrow> NextError err))"

text \<open>\<^verbatim>\<open>roles.includes(req.user.role)\<close>; a user without role is in no list of role names.\<close>

definition includes_role :: "string list \<Rightarrow> string option \<Rightarrow> bool" where
  "includes_role roles r = (case r of None \<Rightarrow> False | Some x \<Rightarrow> x \<in> set roles)"

definition authorizeRoles :: "string list \<Rightarrow> request \<Rightarrow> outcome" where
  "authorizeRoles roles req =
     (case user req of
        None \<Rightarrow> Throws (AppError UnauthorizedError ''Please login first'')
      | Some u \<Rightarrow>
          if \<not> includes_role roles (cl_role u)
          then Throws (AppError UnauthorizedError
                  ''You do not have permission to access this resource'')
          else Next req)"

text \<open>
  For comparison with \<open>split_space\<close>, the parts of a header in the words of the
  specification: the maximal pieces without whitespace (space or tab), as separated by
  runs of whitespace. \<open>spec_parts_from word rest\<close> has \<open>word\<close> as the piece being read.
\<close>

definition is_whitespace :: "symbol \<Rightarrow> bool" where
  "is_whitespace c = (c = Ch CHR '' '' \<or> c = Ch (CHR 0x09))"

fun spec_parts_from :: "jstring \<Rightarrow> jstring \<Rightarrow> jstring list" where
  "spec_parts_from word [] = (if word = [] then [] else [word])"
| "spec_parts_from word (c # cs) =
     (if is_whitespace c
      then (if word = [] then spec_parts_from [] cs else word # spec_parts_from [] cs)
      else spec_parts_from (word @ [c]) cs)"

definition spec_whitespace_parts :: "jstring \<Rightarrow> jstring list" where
  "spec_whitespace_parts h = spec_parts_from [] h"

subsection \<open>The route \<^verbatim>\<open>GET /profile\<close> (\<^verbatim>\<open>routes/auth.js\<close>)\<close>

text \<open>The user object of the response; \<^verbatim>\<open>firstName || ''\<close> and \<^verbatim>\<open>lastName || ''\<close>.\<close>

record profile_response =
  rs_id :: string
  rs_username :: string
  rs_email :: string
  rs_firstName :: string
  rs_lastName :: string
  rs_role :: string
  rs_createdAt :: nat
  rs_lastLogin :: "nat option"

definition or_empty :: "string option \<Rightarrow> string" where
  "or_empty v = (case v of None \<Rightarrow> [] | Some s \<Rightarrow> s)"

text \<open>The handler, with the user collection as a map from identifier to document.\<close>

definition profile_handler :: "(string \<Rightarrow> User option) \<Rightarrow> request \<Rightarrow> error + profile_response" where
  "profile_handler users req =
     (case user req of
        None \<Rightarrow> Inl (TypeError ''Cannot read properties of undefined'')
      | Some u \<Rightarrow>
          (case users (cl_id u) of
             None \<Rightarrow> Inl (AppError NotFoundError ''User not found'')
           | Some doc \<Rightarrow>
               Inr \<lparr> rs_id = user_id doc,
                     rs_username = username doc,
                     rs_email = email doc,
                     rs_firstName = or_empty (firstName doc),
                     rs_lastName = or_empty (lastName doc),
                     rs_role = role doc,
                     rs_createdAt = createdAt doc,
                     rs_lastLogin = lastLogin doc \<rparr>))"

text \<open>The route: \<^verbatim>\<open>auth.authenticateToken\<close>, then the handler.\<close>

definition get_profile :: "env \<Rightarrow> nat \<Rightarrow> (string \<Rightarrow> User option) \<Rightarrow> request \<Rightarrow> error + profile_response" where
  "get_profile e now users req =
     (case authenticateToken e now req of
        Next req' \<Rightarrow> profile_handler users req'
      | NextError err \<Rightarrow> Inl err
      | Throws err \<Rightarrow> Inl err)"

subsection \<open>Sample data\<close>

text \<open>
  A process without any of the four variables set, a user, and Redis states: empty,
  holding one entry without expiry for that user, or unreachable.
\<close>

definition env_default :: env where
  "env_default = \<lparr> JWT_SECRET = None, JWT_EXPIRES_IN = None,
                    JWT_REFRESH_SECRET = None, JWT_REFRESH_EXPIRES_IN = None \<rparr>"

definition alice :: User where
  "alice = \<lparr> user_id = ''u1'', username = ''alice'', email = ''a@x.com'',
             password = ''hash1'', firstName = None, lastName = None, role = ''user'',
             favorites = \<lparr> universities = [], jobs = [] \<rparr>, applications = [],
             createdAt = 900, updatedAt = None, lastLogin = None \<rparr>"

definition redis_empty :: redis where
  "redis_empty = \<lparr> entries = (\<lambda>key. None), failure = None \<rparr>"

definition alice_refresh_claims :: "nat \<Rightarrow> nat \<Rightarrow> claims" where
  "alice_refresh_claims issued expires =
     \<lparr> cl_id = ''u1'', cl_username = None, cl_email = None, cl_role = None,
       cl_type = Some ''refresh'', cl_iat = issued, cl_exp = expires \<rparr>"

definition alice_refresh :: "nat \<Rightarrow> nat \<Rightarrow> jstring" where
  "alice_refresh issued expires =
     [Signed (alice_refresh_claims issued expires) ''jwt_refresh_fallback_secret'']"

definition redis_alice :: "jstring \<Rightarrow> redis" where
  "redis_alice token =
     \<lparr> entries = (\<lambda>key. if key = ''refresh_token:u1'' then Some (token, None) else None),
       failure = None \<rparr>"

definition redis_down :: redis where
  "redis_down = (redis_alice (alice_refresh 1000 605800))
     \<lparr>failure := Some ''The client is closed''\<rparr>"

definition alice_access_claims :: claims where
  "alice_access_claims =
     \<lparr> cl_id = ''u1'', cl_username = Some ''alice'', cl_email = Some ''a@x.com'',
       cl_role = Some ''user'', cl_type = None, cl_iat = 1000, cl_exp = 1900 \<rparr>"

definition alice_access :: jstring where
  "alice_access = [Signed alice_access_claims ''jwt_fallback_secret'']"

definition request_with :: "jstring \<Rightarrow> request" where
  "request_with h = \<lparr> authorization = Some h, user = None \<rparr>"

section \<open>Properties\<close>

subsection \<open>The library\<close>

lemma jwt_verify_Inr_iff:
  "(jwt_verify token secret now = Inr d) = (token = [Signed d secret] \<and> now < cl_exp d)"
  by (induction token secret now rule: jwt_verify.induct) auto

subsection \<open>Access tokens\<close>

text \<open>
  Claim C6. For every user, an access token verified before its expiry (at any instant
  \<open>t\<close> earlier than the instant of issue plus the configured lifetime) is accepted, and the
  claims returned carry the identifier, username, email and role of the user it was issued
  for. Neither function takes or returns the Redis state: no store is consulted.
\<close>

theorem access_token_roundtrip:
  assumes "t < now + accessExpiresIn e"
  shows "verifyAccessToken e t (generateAccessToken e now u) =
           Inr \<lparr> cl_id = user_id u, cl_username = Some (username u),
                 cl_email = Some (email u), cl_role = Some (role u), cl_type = None,
                 cl_iat = now, cl_exp = now + accessExpiresIn e \<rparr>"
  using assms by (simp add: verifyAccessToken_def generateAccessToken_def jwt_sign_def)

theorem access_token_roundtrip_witness:
  "(1000::nat) < 1000 + accessExpiresIn env_default \<and>
   verifyAccessToken env_default 1000 (generateAccessToken env_default 1000 alice) =
     Inr \<lparr> cl_id = ''u1'', cl_username = Some ''alice'', cl_email = Some ''a@x.com'',
           cl_role = Some ''user'', cl_type = None, cl_iat = 1000, cl_exp = 1900 \<rparr>"
  using access_token_roundtrip [of 1000 1000 env_default alice]
  by (simp add: accessExpiresIn_def or_span_def env_default_def alice_def)

subsection \<open>The wrapped Redis commands\<close>

lemma redisGet_unsettled:
  "redisGet st now key = Unsettled (map_option RedisError (failure st))"
  by (simp add: redisGet_def promisify_def client_get_def split: option.splits prod.splits)

lemma verifyRefreshToken_outcome:
  "verifyRefreshToken e st now token =
     (case jwt_verify token (refreshSecret e) now of
        Inl err \<Rightarrow> Rejected (AppError UnauthorizedError ''Token expired. Please login again'')
      | Inr decoded \<Rightarrow> Unsettled (map_option RedisError (failure st)))"
  by (simp add: verifyRefreshToken_def verifyRefreshToken_try_def redisGet_unsettled await_def
        split: sum.splits)

lemma generateRefreshToken_effect:
  "failure st = None \<Longrightarrow>
   generateRefreshToken e st now u =
     (Unsettled None,
      st\<lparr>entries := (entries st)(tokenKey (user_id u) \<mapsto>
         (jwt_sign \<lparr> cl_id = user_id u, cl_username = None, cl_email = None, cl_role = None,
                     cl_type = Some ''refresh'', cl_iat = 0, cl_exp = 0 \<rparr>
            (refreshSecret e) (refreshExpiresIn e) now, None))\<rparr>)"
  by (simp add: generateRefreshToken_def redisSet_def client_set_def promisify_def await_def
        Let_def)

lemma generateRefreshToken_failing:
  "failure st = Some m \<Longrightarrow>
   generateRefreshToken e st now u = (Unsettled (Some (RedisError m)), st)"
  by (simp add: generateRefreshToken_def redisSet_def client_set_def promisify_def await_def
        Let_def)

lemma invalidateRefreshToken_effect:
  "failure st = None \<Longrightarrow>
   invalidateRefreshToken st userId =
     (Unsettled None, st\<lparr>entries := (entries st)(tokenKey userId := None)\<rparr>)"
  by (simp add: invalidateRefreshToken_def redisDel_def client_del_def promisify_def await_def
        Let_def)

lemma invalidateRefreshToken_failing:
  "failure st = Some m \<Longrightarrow>
   invalidateRefreshToken st userId = (Unsettled (Some (RedisError m)), st)"
  by (simp add: invalidateRefreshToken_def redisDel_def client_del_def promisify_def await_def
        Let_def)

subsection \<open>Verification of refresh tokens\<close>

text \<open>
  Claim C1. The claim has \<open>verifyRefreshToken\<close> return the claims of a token exactly when
  the library accepts it and Redis holds it under the key of its owner. Here the library
  accepts the token at second 2000 and the client reads that very token under
  \<^verbatim>\<open>refresh_token:u1\<close>, yet the call does not return the claims: the promise of the
  wrapped read never settles, and neither does the call. Only the other half of the
  claim is met: once the expiry has passed (second 605800), or under another secret, the
  token is rejected with the \<open>UnauthorizedError\<close>.
\<close>

theorem verifyRefreshToken_never_settles:
  "jwt_verify (alice_refresh 1000 605800) (refreshSecret env_default) 2000 =
     Inr (alice_refresh_claims 1000 605800)
   \<and> client_get (redis_alice (alice_refresh 1000 605800)) 2000
       (tokenKey (cl_id (alice_refresh_claims 1000 605800))) =
     Inr (Some (alice_refresh 1000 605800))
   \<and> verifyRefreshToken env_default (redis_alice (alice_refresh 1000 605800)) 2000
       (alice_refresh 1000 605800) = Unsettled None
   \<and> verifyRefreshToken env_default (redis_alice (alice_refresh 1000 605800)) 605800
       (alice_refresh 1000 605800) =
     Rejected (AppError UnauthorizedError ''Token expired. Please login again'')
   \<and> verifyRefreshToken env_default (redis_alice (alice_refresh 1000 605800)) 2000
       [Signed (alice_refresh_claims 1000 605800) ''another secret''] =
     Rejected (AppError UnauthorizedError ''Token expired. Please login again'')"
  by (simp add: verifyRefreshToken_outcome client_get_def env_default_def redis_alice_def
        alice_refresh_def alice_refresh_claims_def refreshSecret_def or_string_def tokenKey_def)

subsection \<open>Issue of refresh tokens\<close>

text \<open>
  Claim C2, as amended. While the client reaches Redis, each issue writes its token into
  the one entry of the user, \<^verbatim>\<open>refresh_token:\<close> followed by the identifier, in place of
  what was there, and touches no other entry: after two issues in sequence the entry
  holds the second token. Both tokens are ones the library accepts under the refresh
  secret until their expiry, with the identifier of the user in the claims. The two
  token strings are equal exactly when the two issues fall into the same clock second:
  the library stamps in whole seconds and the payload has nothing else that varies.
  (What the issue and a later verification answer to their callers is not part of the
  amended claim.)
\<close>

theorem later_issue_overwrites_entry:
  assumes "failure st = None"
    and "st1 = snd (generateRefreshToken e st t1 u)"
    and "st2 = snd (generateRefreshToken e st1 t2 u)"
  shows "\<exists>token1 token2.
           entries st1 (tokenKey (user_id u)) = Some (token1, None) \<and>
           entries st2 (tokenKey (user_id u)) = Some (token2, None) \<and>
           (\<forall>key. key \<noteq> tokenKey (user_id u) \<longrightarrow> entries st2 key = entries st key) \<and>
           failure st2 = None \<and>
           ((token1 = token2) = (t1 = t2)) \<and>
           (\<forall>t. t < t1 + refreshExpiresIn e \<longrightarrow>
              (\<exists>d. jwt_verify token1 (refreshSecret e) t = Inr d \<and>
                   cl_id d = user_id u \<and> cl_iat d = t1)) \<and>
           (\<forall>t. t < t2 + refreshExpiresIn e \<longrightarrow>
              (\<exists>d. jwt_verify token2 (refreshSecret e) t = Inr d \<and>
                   cl_id d = user_id u \<and> cl_iat d = t2))"
proof -
  define payload where "payload = \<lparr> cl_id = user_id u, cl_username = None, cl_email = None,
     cl_role = None, cl_type = Some ''refresh'', cl_iat = 0, cl_exp = 0 \<rparr>"
  define token1 where "token1 = jwt_sign payload (refreshSecret e) (refreshExpiresIn e) t1"
  define token2 where "token2 = jwt_sign payload (refreshSecret e) (refreshExpiresIn e) t2"
  have s1: "st1 = st\<lparr>entries := (entries st)(tokenKey (user_id u) \<mapsto> (token1, None))\<rparr>"
    using assms(1,2) by (simp add: generateRefreshToken_effect token1_def payload_def)
  then have f1: "failure st1 = None"
    using assms(1) by simp
  have s2: "st2 = st1\<lparr>entries := (entries st1)(tokenKey (user_id u) \<mapsto> (token2, None))\<rparr>"
    using f1 assms(3) by (simp add: generateRefreshToken_effect token2_def payload_def)
  have same: "(token1 = token2) = (t1 = t2)"
  proof
    assume "token1 = token2"
    then have "cl_iat (payload\<lparr>cl_iat := t1, cl_exp := t1 + refreshExpiresIn e\<rparr>) =
               cl_iat (payload\<lparr>cl_iat := t2, cl_exp := t2 + refreshExpiresIn e\<rparr>)"
      by (simp add: token1_def token2_def jwt_sign_def)
    then show "t1 = t2" by simp
  next
    assume "t1 = t2"
    then show "token1 = token2" by (simp add: token1_def token2_def)
  qed
  have v1: "\<exists>d. jwt_verify token1 (refreshSecret e) t = Inr d \<and> cl_id d = user_id u \<and> cl_iat d = t1"
    if "t < t1 + refreshExpiresIn e" for t
    using that by (simp add: token1_def jwt_sign_def payload_def)
  have v2: "\<exists>d. jwt_verify token2 (refreshSecret e) t = Inr d \<and> cl_id d = user_id u \<and> cl_iat d = t2"
    if "t < t2 + refreshExpiresIn e" for t
    using that by (simp add: token2_def jwt_sign_def payload_def)
  show ?thesis
  proof (rule exI [of _ token1], rule exI [of _ token2], intro conjI allI impI)
    show "entries st1 (tokenKey (user_id u)) = Some (token1, None)"
      by (simp add: s1)
    show "entries st2 (tokenKey (user_id u)) = Some (token2, None)"
      by (simp add: s2)
    show "entries st2 key = entries st key" if "key \<noteq> tokenKey (user_id u)" for key
      using that by (simp add: s2 s1)
    show "failure st2 = None"
      using f1 by (simp add: s2)
    show "(token1 = token2) = (t1 = t2)"
      by (rule same)
    show "\<exists>d. jwt_verify token1 (refreshSecret e) t = Inr d \<and> cl_id d = user_id u \<and> cl_iat d = t1"
      if "t < t1 + refreshExpiresIn e" for t
      using that by (rule v1)
    show "\<exists>d. jwt_verify token2 (refreshSecret e) t = Inr d \<and> cl_id d = user_id u \<and> cl_iat d = t2"
      if "t < t2 + refreshExpiresIn e" for t
      using that by (rule v2)
  qed
qed

theorem later_issue_overwrites_entry_witness:
  "failure redis_empty = None
   \<and> snd (generateRefreshToken env_default redis_empty 1000 alice) =
       redis_alice (alice_refresh 1000 605800)
   \<and> snd (generateRefreshToken env_default (redis_alice (alice_refresh 1000 605800)) 1001 alice) =
       redis_alice (alice_refresh 1001 605801)
   \<and> alice_refresh 1000 605800 \<noteq> alice_refresh 1001 605801
   \<and> (\<exists>d. jwt_verify (alice_refresh 1001 605801) (refreshSecret env_default) 2000 = Inr d \<and>
            cl_id d = ''u1'' \<and> cl_iat d = 1001)"
proof -
  have h1: "failure redis_empty = None"
    by (simp add: redis_empty_def)
  have h2: "redis_alice (alice_refresh 1000 605800) =
      snd (generateRefreshToken env_default redis_empty 1000 alice)"
    by (simp add: generateRefreshToken_effect jwt_sign_def env_default_def
        redis_empty_def alice_def alice_refresh_def alice_refresh_claims_def redis_alice_def
        refreshSecret_def refreshExpiresIn_def or_string_def or_span_def tokenKey_def fun_eq_iff)
  have h3: "redis_alice (alice_refresh 1001 605801) =
      snd (generateRefreshToken env_default (redis_alice (alice_refresh 1000 605800)) 1001 alice)"
    by (simp add: generateRefreshToken_effect jwt_sign_def env_default_def
        alice_def alice_refresh_def alice_refresh_claims_def redis_alice_def
        refreshSecret_def refreshExpiresIn_def or_string_def or_span_def tokenKey_def fun_eq_iff)
  have key: "tokenKey (user_id alice) = ''refresh_token:u1''"
    by (simp add: tokenKey_def alice_def)
  have e1: "entries (redis_alice (alice_refresh 1000 605800)) ''refresh_token:u1'' =
      Some (alice_refresh 1000 605800, None)"
    and e2: "entries (redis_alice (alice_refresh 1001 605801)) ''refresh_token:u1'' =
      Some (alice_refresh 1001 605801, None)"
    by (simp_all add: redis_alice_def)
  have life: "(2000::nat) < 1001 + refreshExpiresIn env_default"
    by (simp add: refreshExpiresIn_def or_span_def env_default_def)
  have uid: "user_id alice = ''u1''"
    by (simp add: alice_def)
  from later_issue_overwrites_entry [OF h1 h2 h3] key e1 e2 uid
  have ne: "alice_refresh 1000 605800 \<noteq> alice_refresh 1001 605801"
    and ok: "(2000::nat) < 1001 + refreshExpiresIn env_default \<longrightarrow>
      (\<exists>d. jwt_verify (alice_refresh 1001 605801) (refreshSecret env_default) 2000 = Inr d \<and>
            cl_id d = ''u1'' \<and> cl_iat d = 1001)"
    by auto
  from h1 h2 h3 ne ok life show ?thesis
    by simp
qed

text \<open>
  Claim C2 as stated fails when the two issues fall into the same second: both write the
  same string, so no verification can reject the first token and accept the second. For
  the user of the sample at second 1000, neither issue settles, the entry after the second
  issue is the one the first wrote, and the verification of that one token a second later
  does not settle either, where the claim has it succeed.
\<close>

theorem same_second_issue_same_token:
  "generateRefreshToken env_default redis_empty 1000 alice =
     (Unsettled None, redis_alice (alice_refresh 1000 605800))
   \<and> generateRefreshToken env_default (redis_alice (alice_refresh 1000 605800)) 1000 alice =
     (Unsettled None, redis_alice (alice_refresh 1000 605800))
   \<and> verifyRefreshToken env_default (redis_alice (alice_refresh 1000 605800)) 1001
       (alice_refresh 1000 605800) = Unsettled None"
  by (simp add: generateRefreshToken_effect verifyRefreshToken_outcome jwt_sign_def
        env_default_def redis_empty_def alice_def alice_refresh_def alice_refresh_claims_def
        redis_alice_def refreshSecret_def refreshExpiresIn_def or_string_def or_span_def
        tokenKey_def fun_eq_iff)

text \<open>
  Claim C3. For the user of the sample at second 1000, with Redis empty, the token is
  written under \<^verbatim>\<open>refresh_token:u1\<close>, but without any time to live, and the call never
  settles; with Redis unreachable nothing is written, the rejection of the client stays
  unhandled and the call, instead of failing with it, never settles.
\<close>

theorem generateRefreshToken_no_expiry_no_failure:
  "generateRefreshToken env_default redis_empty 1000 alice =
     (Unsettled None, redis_alice (alice_refresh 1000 605800))
   \<and> entries (redis_alice (alice_refresh 1000 605800)) ''refresh_token:u1'' =
     Some (alice_refresh 1000 605800, None)
   \<and> generateRefreshToken env_default redis_down 1000 alice =
     (Unsettled (Some (RedisError ''The client is closed'')), redis_down)"
  by (simp add: generateRefreshToken_effect generateRefreshToken_failing jwt_sign_def
        env_default_def redis_empty_def redis_down_def alice_def alice_refresh_def
        alice_refresh_claims_def redis_alice_def refreshSecret_def refreshExpiresIn_def
        or_string_def or_span_def tokenKey_def fun_eq_iff)

subsection \<open>Failure of the store\<close>

text \<open>
  Claim C5. With Redis unreachable, the verification of a token the library accepts does
  not fail with an \<open>InternalServerError\<close>, nor with any error: the rejection of the client
  is unhandled and the call never settles. The same holds for the issue of a token and
  for the invalidation.
\<close>

theorem store_failure_never_settles:
  "jwt_verify (alice_refresh 1000 605800) (refreshSecret env_default) 2000 =
     Inr (alice_refresh_claims 1000 605800)
   \<and> verifyRefreshToken env_default redis_down 2000 (alice_refresh 1000 605800) =
     Unsettled (Some (RedisError ''The client is closed''))
   \<and> generateRefreshToken env_default redis_down 2000 alice =
     (Unsettled (Some (RedisError ''The client is closed'')), redis_down)
   \<and> invalidateRefreshToken redis_down ''u1'' =
     (Unsettled (Some (RedisError ''The client is closed'')), redis_down)"
  by (simp add: verifyRefreshToken_outcome generateRefreshToken_failing
        invalidateRefreshToken_failing env_default_def redis_down_def alice_refresh_def
        alice_refresh_claims_def refreshSecret_def or_string_def)

subsection \<open>Invalidation\<close>

text \<open>
  Claim C7. The entry of the user is deleted, and a second call finds nothing to delete
  and throws nothing, as the claim says; but neither call settles, and afterwards the
  verification of the token that had been stored, which the library still accepts, is
  not rejected with the \<open>UnauthorizedError\<close>: it never settles.
\<close>

theorem invalidateRefreshToken_then_verify_never_settles:
  "invalidateRefreshToken (redis_alice (alice_refresh 1000 605800)) ''u1'' =
     (Unsettled None, redis_empty)
   \<and> invalidateRefreshToken redis_empty ''u1'' = (Unsettled None, redis_empty)
   \<and> jwt_verify (alice_refresh 1000 605800) (refreshSecret env_default) 2000 =
     Inr (alice_refresh_claims 1000 605800)
   \<and> verifyRefreshToken env_default redis_empty 2000 (alice_refresh 1000 605800) =
     Unsettled None"
  by (simp add: invalidateRefreshToken_effect verifyRefreshToken_outcome env_default_def
        redis_alice_def redis_empty_def alice_refresh_def alice_refresh_claims_def
        refreshSecret_def or_string_def tokenKey_def fun_eq_iff)

subsection \<open>The authentication gate\<close>

lemma split_space_no_space:
  "Ch CHR '' '' \<notin> set a \<Longrightarrow> split_space a = [a]"
  by (induction a) auto

lemma split_space_append:
  "Ch CHR '' '' \<notin> set a \<Longrightarrow> split_space (a @ Ch CHR '' '' # b) = a # split_space b"
  by (induction a) auto

lemma split_space_first:
  assumes "Ch CHR '' '' \<notin> set a" and "rest = [] \<or> hd rest = Ch CHR '' ''"
  shows "\<exists>ps. split_space (a @ rest) = a # ps"
proof (cases rest)
  case Nil
  with assms(1) show ?thesis by (simp add: split_space_no_space)
next
  case (Cons r rs)
  with assms show ?thesis by (simp add: split_space_append)
qed

lemma headerToken_second:
  assumes "Ch CHR '' '' \<notin> set scheme" and "Ch CHR '' '' \<notin> set token"
    and "rest = [] \<or> hd rest = Ch CHR '' ''"
  shows "headerToken (Some (scheme @ Ch CHR '' '' # token @ rest)) = Some token"
proof -
  obtain ps where "split_space (token @ rest) = token # ps"
    using split_space_first [OF assms(2,3)] by blast
  then show ?thesis
    using assms(1) by (simp add: headerToken_def split_space_append index_def)
qed

lemma headerToken_single:
  assumes "Ch CHR '' '' \<notin> set h"
  shows "headerToken (Some h) = None \<or> headerToken (Some h) = Some []"
  using assms by (simp add: headerToken_def split_space_no_space index_def)

text \<open>
  Claim C8. Without an authorization header, or with one that holds nothing after
  \<^verbatim>\<open>Bearer\<close> and the space, \<open>authenticateToken\<close> throws the \<open>UnauthorizedError\<close>
  "Access token is required". With a header \<^verbatim>\<open>Bearer\<close>, a space and a credential (not
  empty, without space) it hands the credential to \<open>verifyAccessToken\<close>: when that returns
  claims, it continues with the request carrying them as \<^verbatim>\<open>user\<close>; when that fails,
  it passes on the very error, an \<open>UnauthorizedError\<close>, and does not continue.
\<close>

theorem authenticateToken_bearer:
  "(authorization req = None \<or> authorization req = Some (map Ch ''Bearer '') \<longrightarrow>
      authenticateToken e now req =
        Throws (AppError UnauthorizedError ''Access token is required''))
   \<and> (authorization req = Some (map Ch ''Bearer '' @ token) \<and> token \<noteq> [] \<and>
        Ch CHR '' '' \<notin> set token \<longrightarrow>
        (\<forall>decoded. verifyAccessToken e now token = Inr decoded \<longrightarrow>
            authenticateToken e now req = Next (req\<lparr>user := Some decoded\<rparr>)) \<and>
        (\<forall>err. verifyAccessToken e now token = Inl err \<longrightarrow>
            authenticateToken e now req = NextError err \<and>
            err = AppError UnauthorizedError ''Invalid token. Please login again''))"
proof (intro conjI impI allI)
  assume "authorization req = None \<or> authorization req = Some (map Ch ''Bearer '')"
  then show "authenticateToken e now req =
        Throws (AppError UnauthorizedError ''Access token is required'')"
    by (auto simp: authenticateToken_def headerToken_def index_def)
next
  fix decoded
  assume a: "authorization req = Some (map Ch ''Bearer '' @ token) \<and> token \<noteq> [] \<and>
        Ch CHR '' '' \<notin> set token"
    and v: "verifyAccessToken e now token = Inr decoded"
  have "headerToken (Some (map Ch ''Bearer'' @ Ch CHR '' '' # token @ [])) = Some token"
    using a by (intro headerToken_second) auto
  with a v show "authenticateToken e now req = Next (req\<lparr>user := Some decoded\<rparr>)"
    by (simp add: authenticateToken_def)
next
  fix err
  assume a: "authorization req = Some (map Ch ''Bearer '' @ token) \<and> token \<noteq> [] \<and>
        Ch CHR '' '' \<notin> set token"
    and v: "verifyAccessToken e now token = Inl err"
  have "headerToken (Some (map Ch ''Bearer'' @ Ch CHR '' '' # token @ [])) = Some token"
    using a by (intro headerToken_second) auto
  with a v show "authenticateToken e now req = NextError err"
    by (simp add: authenticateToken_def)
next
  fix err
  assume "verifyAccessToken e now token = Inl err"
  then show "err = AppError UnauthorizedError ''Invalid token. Please login again''"
    by (auto simp: verifyAccessToken_def split: sum.splits)
qed

theorem authenticateToken_bearer_witness:
  "authenticateToken env_default 1500 \<lparr> authorization = None, user = None \<rparr> =
     Throws (AppError UnauthorizedError ''Access token is required'')
   \<and> authenticateToken env_default 1500 (request_with (map Ch ''Bearer '' @ alice_access)) =
     Next ((request_with (map Ch ''Bearer '' @ alice_access))\<lparr>user := Some alice_access_claims\<rparr>)
   \<and> authenticateToken env_default 1900 (request_with (map Ch ''Bearer '' @ alice_access)) =
     NextError (AppError UnauthorizedError ''Invalid token. Please login again'')"
proof -
  let ?req = "request_with (map Ch ''Bearer '' @ alice_access)"
  have hdr: "authorization ?req = Some (map Ch ''Bearer '' @ alice_access) \<and>
      alice_access \<noteq> [] \<and> Ch CHR '' '' \<notin> set alice_access"
    by (simp add: request_with_def alice_access_def)
  have ok: "verifyAccessToken env_default 1500 alice_access = Inr alice_access_claims"
    by (simp add: verifyAccessToken_def alice_access_def alice_access_claims_def
          accessSecret_def or_string_def env_default_def)
  have late: "verifyAccessToken env_default 1900 alice_access =
      Inl (AppError UnauthorizedError ''Invalid token. Please login again'')"
    by (simp add: verifyAccessToken_def alice_access_def alice_access_claims_def
          accessSecret_def or_string_def env_default_def)
  have none: "authorization \<lparr> authorization = None, user = None \<rparr> = None \<or>
      authorization \<lparr> authorization = None, user = None \<rparr> = Some (map Ch ''Bearer '')"
    by simp
  from authenticateToken_bearer [of "\<lparr> authorization = None, user = None \<rparr>" env_default 1500
         alice_access] none
  have a: "authenticateToken env_default 1500 \<lparr> authorization = None, user = None \<rparr> =
     Throws (AppError UnauthorizedError ''Access token is required'')"
    by blast
  from authenticateToken_bearer [of ?req env_default 1500 alice_access] hdr ok
  have b: "authenticateToken env_default 1500 ?req = Next (?req\<lparr>user := Some alice_access_claims\<rparr>)"
    by blast
  from authenticateToken_bearer [of ?req env_default 1900 alice_access] hdr late
  have c: "authenticateToken env_default 1900 ?req =
     NextError (AppError UnauthorizedError ''Invalid token. Please login again'')"
    by blast
  from a b c show ?thesis by simp
qed

text \<open>
  Claim C9, as amended. The scheme is not looked at. A header splits at its first space
  into a first part and the rest; the piece of the rest up to the next space (the second
  element of \<^verbatim>\<open>split(' ')\<close>, which is empty when two spaces follow each other, and which
  a tab does not end) is the credential: empty, it is rejected as missing, otherwise the
  outcome is that of verifying it, whatever the first part is. A header without any space
  is rejected as missing the credential.
\<close>

theorem authenticateToken_second_part:
  "(Ch CHR '' '' \<notin> set scheme \<and> Ch CHR '' '' \<notin> set token \<and>
    (rest = [] \<or> hd rest = Ch CHR '' '') \<and>
    authorization req = Some (scheme @ Ch CHR '' '' # token @ rest) \<longrightarrow>
      authenticateToken e now req =
        (if token = [] then Throws (AppError UnauthorizedError ''Access token is required'')
         else case verifyAccessToken e now token of
                Inr decoded \<Rightarrow> Next (req\<lparr>user := Some decoded\<rparr>)
              | Inl err \<Rightarrow> NextError err))
   \<and> (Ch CHR '' '' \<notin> set h \<and> authorization req = Some h \<longrightarrow>
        authenticateToken e now req =
          Throws (AppError UnauthorizedError ''Access token is required''))"
proof (intro conjI impI)
  assume a: "Ch CHR '' '' \<notin> set scheme \<and> Ch CHR '' '' \<notin> set token \<and>
    (rest = [] \<or> hd rest = Ch CHR '' '') \<and>
    authorization req = Some (scheme @ Ch CHR '' '' # token @ rest)"
  then have "headerToken (authorization req) = Some token"
    by (simp add: headerToken_second)
  then show "authenticateToken e now req =
        (if token = [] then Throws (AppError UnauthorizedError ''Access token is required'')
         else case verifyAccessToken e now token of
                Inr decoded \<Rightarrow> Next (req\<lparr>user := Some decoded\<rparr>)
              | Inl err \<Rightarrow> NextError err)"
    by (simp add: authenticateToken_def)
next
  assume "Ch CHR '' '' \<notin> set h \<and> authorization req = Some h"
  then have "headerToken (authorization req) = None \<or> headerToken (authorization req) = Some []"
    using headerToken_single [of h] by simp
  then show "authenticateToken e now req =
          Throws (AppError UnauthorizedError ''Access token is required'')"
    by (auto simp: authenticateToken_def)
qed

theorem authenticateToken_second_part_witness:
  "authenticateToken env_default 1500 (request_with (map Ch ''Basic '' @ alice_access)) =
     Next ((request_with (map Ch ''Basic '' @ alice_access))\<lparr>user := Some alice_access_claims\<rparr>)
   \<and> authenticateToken env_default 1500 (request_with (map Ch ''Bearer  '' @ alice_access)) =
     Throws (AppError UnauthorizedError ''Access token is required'')
   \<and> authenticateToken env_default 1500 (request_with alice_access) =
     Throws (AppError UnauthorizedError ''Access token is required'')"
proof -
  let ?basic = "request_with (map Ch ''Basic '' @ alice_access)"
  let ?two = "request_with (map Ch ''Bearer  '' @ alice_access)"
  let ?alone = "request_with alice_access"
  have ok: "verifyAccessToken env_default 1500 alice_access = Inr alice_access_claims"
    by (simp add: verifyAccessToken_def alice_access_def alice_access_claims_def
          accessSecret_def or_string_def env_default_def)
  have h1: "Ch CHR '' '' \<notin> set (map Ch ''Basic'') \<and> Ch CHR '' '' \<notin> set alice_access \<and>
      ([] = [] \<or> hd [] = Ch CHR '' '') \<and>
      authorization ?basic = Some (map Ch ''Basic'' @ Ch CHR '' '' # alice_access @ [])"
    by (simp add: request_with_def alice_access_def)
  have h2: "Ch CHR '' '' \<notin> set (map Ch ''Bearer'') \<and> Ch CHR '' '' \<notin> set ([] :: jstring) \<and>
      (Ch CHR '' '' # alice_access = [] \<or> hd (Ch CHR '' '' # alice_access) = Ch CHR '' '') \<and>
      authorization ?two =
        Some (map Ch ''Bearer'' @ Ch CHR '' '' # [] @ (Ch CHR '' '' # alice_access))"
    by (simp add: request_with_def)
  have h3: "Ch CHR '' '' \<notin> set alice_access \<and> authorization ?alone = Some alice_access"
    by (simp add: request_with_def alice_access_def)
  from authenticateToken_second_part [of "map Ch ''Basic''" alice_access "[]" ?basic
         env_default 1500 "[]"] h1 ok
  have a: "authenticateToken env_default 1500 ?basic =
      Next (?basic\<lparr>user := Some alice_access_claims\<rparr>)"
    by (simp add: alice_access_def)
  from authenticateToken_second_part [of "map Ch ''Bearer''" "[]" "Ch CHR '' '' # alice_access"
         ?two env_default 1500 "[]"] h2
  have b: "authenticateToken env_default 1500 ?two =
      Throws (AppError UnauthorizedError ''Access token is required'')"
    by simp
  from authenticateToken_second_part [of "[]" "[]" "[]" ?alone env_default 1500 alice_access] h3
  have c: "authenticateToken env_default 1500 ?alone =
      Throws (AppError UnauthorizedError ''Access token is required'')"
    by simp
  from a b c show ?thesis by simp
qed

text \<open>
  Claim C9 as stated fails where the pieces between single spaces are not the
  whitespace-separated parts. After \<^verbatim>\<open>Bearer\<close> and two spaces, or \<^verbatim>\<open>Bearer\<close> and a tab,
  the second whitespace-separated part is a token that verifies, and the request is
  rejected as carrying none. A header made of a space and that token has one
  whitespace-separated part only, and the token is accepted.
\<close>

theorem second_whitespace_part_not_taken:
  "verifyAccessToken env_default 1500 alice_access = Inr alice_access_claims
   \<and> index (spec_whitespace_parts (map Ch ''Bearer  '' @ alice_access)) 1 = Some alice_access
   \<and> authenticateToken env_default 1500 (request_with (map Ch ''Bearer  '' @ alice_access)) =
       Throws (AppError UnauthorizedError ''Access token is required'')
   \<and> index (spec_whitespace_parts (map Ch ''Bearer'' @ Ch (CHR 0x09) # alice_access)) 1 =
       Some alice_access
   \<and> authenticateToken env_default 1500
         (request_with (map Ch ''Bearer'' @ Ch (CHR 0x09) # alice_access)) =
       Throws (AppError UnauthorizedError ''Access token is required'')
   \<and> spec_whitespace_parts (Ch CHR '' '' # alice_access) = [alice_access]
   \<and> authenticateToken env_default 1500 (request_with (Ch CHR '' '' # alice_access)) =
       Next ((request_with (Ch CHR '' '' # alice_access))\<lparr>user := Some alice_access_claims\<rparr>)"
  by (simp add: verifyAccessToken_def alice_access_def alice_access_claims_def accessSecret_def
        or_string_def env_default_def index_def spec_whitespace_parts_def is_whitespace_def
        authenticateToken_def headerToken_def request_with_def)

subsection \<open>The profile\<close>

text \<open>
  Claim C10. The records \<open>profile\<close> and \<open>profile_response\<close> have no field for the
  password, and neither projection reads it: a user document with its password replaced
  has the same profile, and a user collection in which every password is rewritten in any
  way gives the same result of the handler and of the whole route, for every request.
\<close>

theorem profile_independent_of_password:
  "getProfile (u\<lparr>password := p\<rparr>) = getProfile u
   \<and> profile_handler (\<lambda>k. map_option (password_update (f k)) (users k)) req =
       profile_handler users req
   \<and> get_profile e now (\<lambda>k. map_option (password_update (f k)) (users k)) req =
       get_profile e now users req"
proof -
  have h: "profile_handler (\<lambda>k. map_option (password_update (f k)) (users k)) r =
       profile_handler users r" for r
    by (simp add: profile_handler_def split: option.splits)
  show ?thesis
    by (simp add: getProfile_def get_profile_def h cong: outcome.case_cong)
qed

subsection \<open>The role gate\<close>

text \<open>
  Claim C4. The gate throws when no user is attached and when the role is not among the
  allowed ones, both times an \<open>UnauthorizedError\<close>: a request of a user of role
  \<^verbatim>\<open>user\<close> to a route for \<^verbatim>\<open>admin\<close> is answered with status 401, where the class
  \<open>ForbiddenError\<close> of the same module carries 403.
\<close>

theorem authorizeRoles_wrong_role_is_401:
  "authorizeRoles [''admin''] \<lparr> authorization = None, user = Some alice_access_claims \<rparr> =
     Throws (AppError UnauthorizedError ''You do not have permission to access this resource'')
   \<and> responseStatus (AppError UnauthorizedError
         ''You do not have permission to access this resource'') = 401
   \<and> statusCode ForbiddenError = 403
   \<and> authorizeRoles [''admin''] \<lparr> authorization = None, user = None \<rparr> =
     Throws (AppError UnauthorizedError ''Please login first'')"
  by (simp add: authorizeRoles_def includes_role_def alice_access_claims_def)

end
